theory Spec2Isabelle
  imports
    Complex_Main
    "HOL-Library.AList"
    "HOL-Library.Sublist"
    "HOL-Library.Char_ord"
    "HOL-Library.List_Lexorder"
    "HOL-Library.Product_Lexorder"
    "HOL-Library.Multiset"
begin

section \<open>Data model of SpacedRepetition.py\<close>

text \<open>
  Python floats are modelled as rationals (exact arithmetic), Python ints as \<open>int\<close>.
  A \<open>datetime\<close> is the number of microseconds since a fixed origin of the naive local
  clock; the ISO string stored in a record and parsed back by \<open>fromisoformat\<close> is that same
  number. Every function that reads \<open>datetime.now()\<close> takes the reading as its first
  argument \<open>now\<close>; the readings within one call are taken to be equal.
\<close>

record review_record =
  ease_factor :: rat
  repetition :: int
  interval :: int
  next_review :: int
  total_attempts :: int
  correct_attempts :: int
  last_response_time :: rat
  avg_response_time :: rat
  created_date :: int

text \<open>
  \<open>question_data\<close> is a Python dict from the key string to the record. A dict iterates in
  insertion order and an assignment to a present key keeps its position, which is what
  \<open>AList.update\<close> does on an association list.
\<close>

type_synonym store = "(string \<times> review_record) list"

datatype py_error = ZeroDivisionError | KeyError

text \<open>
  What the attempt to write the data file does: it succeeds, or \<open>open\<close> or
  \<open>json.dump\<close> raises an exception with the given message.
\<close>

datatype write_outcome = WriteOk | WriteRaises string

text \<open>
  The manager object: the in-memory dict, the store most recently written to the data file
  in full (\<open>None\<close> before the first successful write), and the lines printed so far.
\<close>

record manager =
  question_data :: store
  last_saved :: "store option"
  console :: "string list"

definition day_us :: int where
  "day_us = 86400000000"

text \<open>\<open>timedelta(days=n)\<close> in microseconds.\<close>

definition timedelta_days :: "int \<Rightarrow> int" where
  "timedelta_days n = n * day_us"

text \<open>
  The attribute \<open>.days\<close> of a difference of two datetimes: a timedelta is normalised with
  \<open>0 \<le> seconds < 86400\<close>, so \<open>.days\<close> is the floor of the quotient.
\<close>

definition delta_days :: "int \<Rightarrow> int" where
  "delta_days d = d div day_us"

text \<open>Python's \<open>int(x)\<close> on a float truncates towards zero.\<close>

definition py_int :: "rat \<Rightarrow> int" where
  "py_int x = (if 0 \<le> x then \<lfloor>x\<rfloor> else \<lceil>x\<rceil>)"

section \<open>SpacedRepetitionManager\<close>

definition save_data :: "write_outcome \<Rightarrow> manager \<Rightarrow> manager" where
  "save_data w m =
     (case w of
        WriteOk \<Rightarrow> m\<lparr>last_saved := Some (question_data m)\<rparr>
      | WriteRaises e \<Rightarrow>
          m\<lparr>console := console m @ [''Error saving spaced repetition data: '' @ e]\<rparr>)"

definition user_key :: "string \<Rightarrow> string \<Rightarrow> string" where
  "user_key username question_id = username @ '':'' @ question_id"

definition new_record :: "int \<Rightarrow> review_record" where
  "new_record now =
     \<lparr>ease_factor = 5 / 2, repetition = 0, interval = 1, next_review = now,
      total_attempts = 0, correct_attempts = 0, last_response_time = 0,
      avg_response_time = 0, created_date = now\<rparr>"

definition initialize_question :: "int \<Rightarrow> string \<Rightarrow> string \<Rightarrow> manager \<Rightarrow> manager" where
  "initialize_question now question_id username m =
     (let k = user_key username question_id in
      if map_of (question_data m) k = None
      then m\<lparr>question_data := question_data m @ [(k, new_record now)]\<rparr>
      else m)"

text \<open>
  Lines 100 to 116 of \<open>update_question_performance\<close>: the quality of the answer, from the
  response time when it was correct and from the success rate (counters already updated)
  when it was not.
\<close>

definition quality_of :: "bool \<Rightarrow> rat \<Rightarrow> int \<Rightarrow> int \<Rightarrow> int" where
  "quality_of was_correct response_time n_correct n_total =
     (if was_correct then
        (if response_time \<le> 5 then 5 else if response_time \<le> 10 then 4 else 3)
      else
        (let success_rate = of_int n_correct / (of_int n_total :: rat) in
         if success_rate > 7 / 10 then 2 else if success_rate > 3 / 10 then 1 else 0))"

text \<open>
  Lines 72 to 124: the mutation of the record \<open>data\<close>. The only statement that can raise is
  the division by the new \<open>total_attempts\<close> on line 79.
\<close>

definition update_data :: "int \<Rightarrow> bool \<Rightarrow> rat \<Rightarrow> review_record \<Rightarrow> py_error + review_record" where
  "update_data now was_correct response_time data =
     (let n_total = total_attempts data + 1;
          n_correct = (if was_correct then correct_attempts data + 1 else correct_attempts data);
          total_time = avg_response_time data * of_int (n_total - 1) + response_time
      in if n_total = 0 then Inl ZeroDivisionError
         else
           let avg = total_time / of_int n_total;
               ivl = (if was_correct then
                        (if repetition data = 0 then 1
                         else if repetition data = 1 then 6
                         else py_int (of_int (interval data) * ease_factor data))
                      else 1);
               rep = (if was_correct then repetition data + 1 else 0);
               quality = quality_of was_correct response_time n_correct n_total;
               new_ease = ease_factor data +
                  (1 / 10 - of_int (5 - quality) * (8 / 100 + of_int (5 - quality) * (2 / 100)))
           in Inr (data\<lparr>ease_factor := max (13 / 10) new_ease,
                         repetition := rep,
                         interval := ivl,
                         next_review := now + timedelta_days ivl,
                         total_attempts := n_total,
                         correct_attempts := n_correct,
                         last_response_time := response_time,
                         avg_response_time := avg\<rparr>))"

definition update_question_performance ::
  "int \<Rightarrow> write_outcome \<Rightarrow> string \<Rightarrow> string \<Rightarrow> bool \<Rightarrow> rat \<Rightarrow> manager \<Rightarrow> py_error + manager" where
  "update_question_performance now w question_id username was_correct response_time m =
     (let k = user_key username question_id;
          m1 = (if map_of (question_data m) k = None
                then initialize_question now question_id username m else m)
      in case map_of (question_data m1) k of
           None \<Rightarrow> Inl KeyError
         | Some data \<Rightarrow>
             (case update_data now was_correct response_time data of
                Inl e \<Rightarrow> Inl e
              | Inr data' \<Rightarrow>
                  Inr (save_data w (m1\<lparr>question_data := AList.update k data' (question_data m1)\<rparr>))))"

definition get_questions_due_for_review :: "int \<Rightarrow> string \<Rightarrow> string list \<Rightarrow> manager \<Rightarrow> string list" where
  "get_questions_due_for_review now username all_question_ids m =
     filter (\<lambda>question_id.
        case map_of (question_data m) (user_key username question_id) of
          None \<Rightarrow> True
        | Some data \<Rightarrow> now \<ge> next_review data) all_question_ids"

definition get_question_priority :: "int \<Rightarrow> string \<Rightarrow> string \<Rightarrow> manager \<Rightarrow> rat" where
  "get_question_priority now question_id username m =
     (case map_of (question_data m) (user_key username question_id) of
        None \<Rightarrow> 100
      | Some data \<Rightarrow>
          let days_overdue = delta_days (now - next_review data);
              overdue_factor = max 0 days_overdue * 10;
              success_rate = of_int (correct_attempts data) / of_int (max 1 (total_attempts data));
              difficulty_factor = (1 - success_rate) * 50;
              ease = (3 - ease_factor data) * 20;
              time_factor = min days_overdue 30
          in of_int overdue_factor + difficulty_factor + ease + of_int time_factor)"

text \<open>\<open>key.startswith(p)\<close>.\<close>

definition startswith :: "string \<Rightarrow> string \<Rightarrow> bool" where
  "startswith key p = prefix p key"

text \<open>
  \<open>key.split(':', 1)[1]\<close>: what follows the first colon. Every use is guarded by
  \<open>key.startswith(username + ':')\<close>, so the key has a colon and the index exists.
\<close>

definition split_colon_1 :: "string \<Rightarrow> string" where
  "split_colon_1 key = tl (dropWhile (\<lambda>c. c \<noteq> CHR '':'') key)"

text \<open>
  Python's \<open>round(x, n)\<close>, in exact arithmetic: the nearest multiple of \<open>10 ^ (- n)\<close>, a tie
  going to the even one.
\<close>

definition py_round :: "nat \<Rightarrow> rat \<Rightarrow> rat" where
  "py_round n x =
     (let y = x * 10 ^ n; f = \<lfloor>y\<rfloor>; d = y - of_int f
      in of_int (if d < 1 / 2 then f else if d > 1 / 2 then f + 1
                 else if even f then f else f + 1) / 10 ^ n)"

record user_statistics =
  total_questions :: nat
  questions_mastered :: nat
  questions_learning :: nat
  questions_difficult :: nat
  average_ease :: rat
  total_reviews :: int

definition get_user_statistics :: "string \<Rightarrow> manager \<Rightarrow> user_statistics" where
  "get_user_statistics username m =
     (let user_questions = filter (\<lambda>(k, v). startswith k (username @ '':'')) (question_data m)
      in if user_questions = [] then
           \<lparr>total_questions = 0, questions_mastered = 0, questions_learning = 0,
            questions_difficult = 0, average_ease = 0, total_reviews = 0\<rparr>
         else
           let n = length user_questions;
               mastered = length (filter (\<lambda>(k, data). repetition data \<ge> 3 \<and> ease_factor data \<ge> 5 / 2)
                                   user_questions);
               learning = length (filter (\<lambda>(k, data). 1 \<le> repetition data \<and> repetition data < 3)
                                   user_questions);
               difficult = length (filter (\<lambda>(k, data). ease_factor data < 2) user_questions);
               avg_ease = sum_list (map (\<lambda>(k, data). ease_factor data) user_questions) / of_nat n;
               reviews = sum_list (map (\<lambda>(k, data). total_attempts data) user_questions)
           in \<lparr>total_questions = n, questions_mastered = mastered, questions_learning = learning,
               questions_difficult = difficult, average_ease = py_round 2 avg_ease,
               total_reviews = reviews\<rparr>)"

text \<open>
  \<open>strftime('%Y-%m-%d')\<close> of a datetime: its calendar date, here as the number of the day.
\<close>

definition date_key :: "int \<Rightarrow> int" where
  "date_key t = t div day_us"

text \<open>The body of the second loop of \<open>get_review_schedule\<close>, for one item of the dict.\<close>

definition schedule_step ::
  "int \<Rightarrow> string \<Rightarrow> int \<Rightarrow> string \<times> review_record \<Rightarrow> (int \<times> string list) list
     \<Rightarrow> (int \<times> string list) list" where
  "schedule_step now username days kd schedule =
     (case kd of (key, data) \<Rightarrow>
        if startswith key (username @ '':'') then
          (if now \<le> next_review data \<and> next_review data \<le> now + timedelta_days days then
             (let dk = date_key (next_review data) in
              case map_of schedule dk of
                Some bucket \<Rightarrow> AList.update dk (bucket @ [split_colon_1 key]) schedule
              | None \<Rightarrow> schedule)
           else schedule)
        else schedule)"

definition get_review_schedule :: "int \<Rightarrow> string \<Rightarrow> int \<Rightarrow> manager \<Rightarrow> (int \<times> string list) list" where
  "get_review_schedule now username days m =
     (let schedule = fold (\<lambda>i sch. AList.update (date_key (now + timedelta_days i)) [] sch)
                          [0..days - 1] []
      in fold (schedule_step now username days) (question_data m) schedule)"

section \<open>Sequences of calls\<close>


definition empty_manager :: manager where
  "empty_manager = \<lparr>question_data = [], last_saved = None, console = []\<rparr>"



text \<open>What the operations keep true of every record.\<close>

definition record_inv :: "review_record \<Rightarrow> bool" where
  "record_inv r \<longleftrightarrow>
     13 / 10 \<le> ease_factor r \<and> 1 \<le> interval r \<and> 0 \<le> repetition r \<and>
     0 \<le> correct_attempts r \<and> correct_attempts r \<le> total_attempts r"

definition store_inv :: "store \<Rightarrow> bool" where
  "store_inv s \<longleftrightarrow> distinct (map fst s) \<and> list_all (\<lambda>(k, r). record_inv r) s"

section \<open>ErrorAnalyzer\<close>

text \<open>
  The first loop of \<open>get_user_error_summary\<close> (lines 16 to 22): the dict \<open>user_data\<close>, from
  what follows the first colon of a key to the record, over the keys that start with the
  user name and a colon.
\<close>

definition user_data_of :: "string \<Rightarrow> manager \<Rightarrow> store" where
  "user_data_of username m =
     fold (\<lambda>(key, data) user_data.
             if startswith key (username @ '':'')
             then AList.update (split_colon_1 key) data user_data else user_data)
          (question_data m) []"

record difficult_question =
  dq_question_id :: string
  dq_success_rate :: rat
  dq_attempts :: int
  dq_difficulty_score :: rat
  dq_ease_factor :: rat

record slow_question =
  sq_question_id :: string
  sq_avg_time :: rat
  sq_attempts :: int

record error_patterns =
  ep_questions_mastered :: nat
  ep_questions_struggling :: nat
  ep_questions_learning :: nat
  ep_avg_response_time :: rat
  ep_slow_questions :: "slow_question list"

text \<open>
  The messages of \<open>_generate_improvement_suggestions\<close>, one constructor for each string of
  the source; the message about challenging questions carries their number.
\<close>

datatype suggestion =
    ReviewBasicConcepts
  | FocusOnWeakAreas
  | DoingWell
  | ExcellentPerformance
  | ChallengingQuestions nat
  | ImproveResponseTime
  | GreatResponseTimes
  | MasteredMost

text \<open>
  The dict returned by \<open>get_user_error_summary\<close>. The dict for a user without data has no
  key \<open>total_attempts\<close> and no key \<open>error_patterns\<close>, and it alone has the key
  \<open>topics_with_most_errors\<close>: a key that is absent is \<open>None\<close>.
\<close>

record error_summary =
  total_questions_attempted :: nat
  es_total_attempts :: "int option"
  total_errors :: int
  error_rate :: rat
  most_difficult_questions :: "difficult_question list"
  topics_with_most_errors :: "string list option"
  es_error_patterns :: "error_patterns option"
  improvement_suggestions :: "suggestion list"

definition analyze_error_patterns :: "store \<Rightarrow> error_patterns" where
  "analyze_error_patterns user_data =
     (let success_rate = (\<lambda>data. of_int (correct_attempts data)
                                     / (of_int (max 1 (total_attempts data)) :: rat));
          mastered = filter (\<lambda>(qid, data). success_rate data \<ge> 8 / 10 \<and> repetition data \<ge> 3)
                       user_data;
          struggling = filter (\<lambda>(qid, data). \<not> (success_rate data \<ge> 8 / 10 \<and> repetition data \<ge> 3)
                                 \<and> success_rate data < 1 / 2) user_data;
          learning = filter (\<lambda>(qid, data). \<not> (success_rate data \<ge> 8 / 10 \<and> repetition data \<ge> 3)
                                 \<and> \<not> success_rate data < 1 / 2) user_data;
          timed = filter (\<lambda>(qid, data). avg_response_time data > 0) user_data;
          total_response_time = sum_list (map (\<lambda>(qid, data). avg_response_time data) timed);
          response_count = length timed;
          slow = map (\<lambda>(qid, data).
                        \<lparr>sq_question_id = qid,
                         sq_avg_time = py_round 1 (avg_response_time data),
                         sq_attempts = total_attempts data\<rparr>)
                   (filter (\<lambda>(qid, data). avg_response_time data > 20) timed)
      in \<lparr>ep_questions_mastered = length mastered,
          ep_questions_struggling = length struggling,
          ep_questions_learning = length learning,
          ep_avg_response_time =
            py_round 1 (total_response_time / of_nat (max 1 response_count)),
          ep_slow_questions = take 5 (sort_key (\<lambda>x. - sq_avg_time x) slow)\<rparr>)"

definition generate_improvement_suggestions ::
  "rat \<Rightarrow> difficult_question list \<Rightarrow> store \<Rightarrow> suggestion list" where
  "generate_improvement_suggestions rate difficult_questions user_data =
     (let s1 = [if rate > 50 then ReviewBasicConcepts
                else if rate > 30 then FocusOnWeakAreas
                else if rate > 15 then DoingWell
                else ExcellentPerformance];
          s2 = (if length difficult_questions > 5
                then s1 @ [ChallengingQuestions (length difficult_questions)] else s1);
          avg_times = map (\<lambda>(qid, data). avg_response_time data)
                        (filter (\<lambda>(qid, data). avg_response_time data > 0) user_data);
          s3 = (if avg_times \<noteq> [] then
                  (let avg_time = sum_list avg_times / of_nat (length avg_times) in
                   if avg_time > 15 then s2 @ [ImproveResponseTime]
                   else if avg_time < 5 then s2 @ [GreatResponseTimes]
                   else s2)
                else s2);
          very_easy_questions =
            length (filter (\<lambda>(qid, data). ease_factor data > 28 / 10 \<and> repetition data \<ge> 2)
                      user_data);
          s4 = (if (of_nat very_easy_questions :: rat) > of_nat (length user_data) * (7 / 10)
                then s3 @ [MasteredMost] else s3)
      in take 4 s4)"

definition get_user_error_summary :: "string \<Rightarrow> manager \<Rightarrow> error_summary" where
  "get_user_error_summary username m =
     (let user_data = user_data_of username m in
      if user_data = [] then
        \<lparr>total_questions_attempted = 0, es_total_attempts = None, total_errors = 0,
         error_rate = 0, most_difficult_questions = [], topics_with_most_errors = Some [],
         es_error_patterns = None, improvement_suggestions = []\<rparr>
      else
        let attempts = sum_list (map (\<lambda>(qid, data). total_attempts data) user_data);
            errors = sum_list (map (\<lambda>(qid, data). total_attempts data - correct_attempts data)
                                 user_data);
            rate = (if attempts > 0 then of_int errors / of_int attempts * 100 else 0);
            difficult_questions =
              map (\<lambda>(qid, data).
                     let success_rate = of_int (correct_attempts data) / of_int (total_attempts data);
                         difficulty_score = (1 - success_rate) * 100 + (3 - ease_factor data) * 20
                     in \<lparr>dq_question_id = qid,
                         dq_success_rate = py_round 1 (success_rate * 100),
                         dq_attempts = total_attempts data,
                         dq_difficulty_score = py_round 1 difficulty_score,
                         dq_ease_factor = py_round 2 (ease_factor data)\<rparr>)
                (filter (\<lambda>(qid, data). total_attempts data \<ge> 2 \<and>
                           of_int (correct_attempts data) / of_int (total_attempts data)
                             < (7 / 10 :: rat)) user_data);
            sorted_questions = sort_key (\<lambda>x. - dq_difficulty_score x) difficult_questions
        in \<lparr>total_questions_attempted = length user_data,
            es_total_attempts = Some attempts,
            total_errors = errors,
            error_rate = py_round 1 rate,
            most_difficult_questions = take 10 sorted_questions,
            topics_with_most_errors = None,
            es_error_patterns = Some (analyze_error_patterns user_data),
            improvement_suggestions =
              generate_improvement_suggestions rate sorted_questions user_data\<rparr>)"

section \<open>Question and QuizLoader\<close>

text \<open>
  A \<open>Question\<close> object. The class defines no \<open>__eq__\<close>, so \<open>q in qs\<close> compares objects by
  identity: \<open>oid\<close> is the identity of the object, and two objects of one load differ in it.
\<close>

record question =
  oid :: nat
  question_text :: string
  answers :: "string list"
  correct_answer :: int
  hints :: "(string \<times> string) list"
  topic :: string

text \<open>
  What the loader takes from outside the repository: the hex digest of MD5, the questions
  that \<open>load_questions_from_file\<close> builds from the file at a path (none when the file
  cannot be read), the \<open>(topic_name, file_path)\<close> pairs that \<open>get_available_topics\<close> finds, and
  the two random functions, \<open>random.sample(xs, k)\<close> and \<open>random.shuffle(xs)\<close>.
\<close>

record env =
  md5_hexdigest :: "string \<Rightarrow> string"
  load_questions_from_file :: "string \<Rightarrow> question list"
  get_available_topics :: "(string \<times> string) list"
  sample :: "question list \<Rightarrow> nat \<Rightarrow> question list"
  shuffle :: "question list \<Rightarrow> question list"

definition get_id :: "env \<Rightarrow> question \<Rightarrow> string" where
  "get_id E q = take 12 (md5_hexdigest E (topic q @ '':'' @ question_text q))"

text \<open>The slice \<open>xs[:n]\<close>: a negative \<open>n\<close> counts from the end.\<close>

definition py_slice_to :: "int \<Rightarrow> 'a list \<Rightarrow> 'a list" where
  "py_slice_to n xs = (if n < 0 then take (length xs - nat (- n)) xs else take (nat n) xs)"

text \<open>
  The dict \<open>{q.get_id(): q for q in all_questions}\<close>: of two questions with one id the later
  one stays.
\<close>

definition question_map :: "env \<Rightarrow> question list \<Rightarrow> string \<Rightarrow> question option" where
  "question_map E all_questions = map_of (rev (map (\<lambda>q. (get_id E q, q)) all_questions))"

text \<open>
  \<open>pairs.sort(reverse=True)\<close> on a list of \<open>(score, id)\<close> tuples: descending in the
  lexicographic order of the tuples. Tuples that compare equal are the same value, so the
  order among them cannot be seen.
\<close>

definition sort_reverse :: "(rat \<times> string) list \<Rightarrow> (rat \<times> string) list" where
  "sort_reverse pairs = rev (sort pairs)"

text \<open>
  The loop that appends \<open>question_map[q_id]\<close> for every pair of the slice whose id is in the
  map.
\<close>

definition lookup_selected ::
  "(string \<Rightarrow> question option) \<Rightarrow> (rat \<times> string) list \<Rightarrow> question list" where
  "lookup_selected qmap pairs = List.map_filter (\<lambda>(score, q_id). qmap q_id) pairs"

text \<open>
  The fill of \<open>get_spaced_repetition_quiz\<close> and \<open>get_difficult_questions_quiz\<close>: when fewer
  than \<open>max_questions\<close> were selected, a random sample of the questions not selected.
\<close>

definition fill_random :: "env \<Rightarrow> question list \<Rightarrow> int \<Rightarrow> question list \<Rightarrow> question list" where
  "fill_random E all_questions max_questions selected_questions =
     (if int (length selected_questions) < max_questions then
        (let remaining_questions = filter (\<lambda>q. q \<notin> set selected_questions) all_questions;
             remaining_needed = max_questions - int (length selected_questions)
         in if remaining_questions \<noteq> []
            then selected_questions @
                 sample E remaining_questions
                   (nat (min remaining_needed (int (length remaining_questions))))
            else selected_questions)
      else selected_questions)"

text \<open>
  \<open>get_spaced_repetition_quiz\<close> initialises a record for every question, so it returns the
  manager too.
\<close>

definition get_spaced_repetition_quiz ::
  "int \<Rightarrow> env \<Rightarrow> manager \<Rightarrow> string \<Rightarrow> string \<Rightarrow> int \<Rightarrow> question list \<times> manager" where
  "get_spaced_repetition_quiz now E m username file_path max_questions =
     (let all_questions = load_questions_from_file E file_path in
      if all_questions = [] then ([], m)
      else
        let all_question_ids = map (get_id E) all_questions;
            m1 = fold (\<lambda>q. initialize_question now (get_id E q) username) all_questions m;
            due_questions = get_questions_due_for_review now username all_question_ids m1;
            due_questions_with_priority =
              sort_reverse (map (\<lambda>q_id. (get_question_priority now q_id username m1, q_id))
                              due_questions);
            selected_questions =
              lookup_selected (question_map E all_questions)
                (py_slice_to max_questions due_questions_with_priority)
        in (shuffle E (fill_random E all_questions max_questions selected_questions), m1))"

text \<open>
  \<open>if file_path:\<close> is false for \<open>None\<close> and for the empty string; then the questions of all
  topics are loaded.
\<close>

definition load_all_topics :: "env \<Rightarrow> question list" where
  "load_all_topics E = concat (map (\<lambda>(name, topic_file). load_questions_from_file E topic_file)
                                  (get_available_topics E))"

definition difficult_pool :: "env \<Rightarrow> string option \<Rightarrow> question list" where
  "difficult_pool E file_path =
     (case file_path of
        Some p \<Rightarrow> if p \<noteq> [] then load_questions_from_file E p else load_all_topics E
      | None \<Rightarrow> load_all_topics E)"

definition get_difficult_questions_quiz ::
  "env \<Rightarrow> manager \<Rightarrow> string \<Rightarrow> string option \<Rightarrow> int \<Rightarrow> question list" where
  "get_difficult_questions_quiz E m username file_path max_questions =
     (let all_questions = difficult_pool E file_path
      in if all_questions = [] then []
         else
           let scored =
                 List.map_filter
                   (\<lambda>q. case map_of (question_data m) (user_key username (get_id E q)) of
                          None \<Rightarrow> None
                        | Some data \<Rightarrow>
                            let success_rate = of_int (correct_attempts data)
                                                 / of_int (max 1 (total_attempts data));
                                difficulty_score = (1 - success_rate) * 100
                                                     + (3 - ease_factor data) * 20
                            in if total_attempts data > 0
                               then Some (difficulty_score, get_id E q) else None)
                   all_questions;
               difficult_questions = sort_reverse scored;
               selected_questions =
                 lookup_selected (question_map E all_questions)
                   (py_slice_to max_questions difficult_questions)
           in shuffle E (fill_random E all_questions max_questions selected_questions))"

text \<open>
  The loop of \<open>get_mixed_review_quiz\<close> that removes duplicates: the questions whose id was
  not seen before, in order, and the ids seen.
\<close>

fun remove_duplicates ::
  "env \<Rightarrow> question list \<Rightarrow> string set \<Rightarrow> question list \<Rightarrow> question list \<times> string set" where
  "remove_duplicates E [] seen unique_questions = (unique_questions, seen)"
| "remove_duplicates E (q # qs) seen unique_questions =
     (if get_id E q \<notin> seen
      then remove_duplicates E qs (insert (get_id E q) seen) (unique_questions @ [q])
      else remove_duplicates E qs seen unique_questions)"

definition get_mixed_review_quiz ::
  "int \<Rightarrow> env \<Rightarrow> manager \<Rightarrow> string \<Rightarrow> int \<Rightarrow> question list" where
  "get_mixed_review_quiz now E m username max_questions =
     (let all_questions = load_all_topics E in
      if all_questions = [] then []
      else
        let sr_count = py_int (of_int max_questions * (6 / 10));
            difficult_count = max_questions - sr_count;
            all_question_ids = map (get_id E) all_questions;
            due_questions = get_questions_due_for_review now username all_question_ids m;
            due_with_priority =
              sort_reverse (map (\<lambda>q_id. (get_question_priority now q_id username m, q_id))
                              due_questions);
            sr_questions =
              lookup_selected (question_map E all_questions)
                (py_slice_to sr_count due_with_priority);
            difficult_questions = get_difficult_questions_quiz E m username None difficult_count;
            selected_questions = sr_questions @ difficult_questions;
            (unique_questions, seen) = remove_duplicates E selected_questions {} [];
            filled =
              (if int (length unique_questions) < max_questions then
                 (let remaining = filter (\<lambda>q. get_id E q \<notin> seen) all_questions;
                      needed = max_questions - int (length unique_questions)
                  in if remaining \<noteq> []
                     then unique_questions @
                          sample E remaining (nat (min needed (int (length remaining))))
                     else unique_questions)
               else unique_questions)
        in py_slice_to max_questions (shuffle E filled))"

text \<open>
  What the two random functions do whatever the random numbers are: \<open>random.shuffle\<close>
  permutes its list, and \<open>random.sample(xs, k)\<close> with \<open>k \<le> len(xs)\<close> returns \<open>k\<close> elements of
  \<open>xs\<close>, each position taken at most once.
\<close>

definition random_ok :: "env \<Rightarrow> bool" where
  "random_ok E \<longleftrightarrow>
     (\<forall>xs. mset (shuffle E xs) = mset xs) \<and>
     (\<forall>xs k. k \<le> length xs \<longrightarrow> length (sample E xs k) = k \<and> mset (sample E xs k) \<subseteq># mset xs)"

text \<open>
  An environment to run the loader in: one topic file with two questions, the true MD5
  digests of their \<open>topic:question\<close> strings, a shuffle that happens to leave the order and a
  sample that happens to take the first elements.
\<close>

definition example_questions :: "question list" where
  "example_questions =
     [\<lparr>oid = 0, question_text = ''What is Python?'',
       answers = [''1. Programming language'', ''2. Snake'', ''3. Framework'', ''4. Library''],
       correct_answer = 1, hints = [(''correct'', ''Correct!''), (''fail'', ''Wrong!'')],
       topic = ''Python Basics''\<rparr>,
      \<lparr>oid = 1, question_text = ''What is a list?'',
       answers = [''1. A sequence'', ''2. A number'', ''3. A module'', ''4. A loop''],
       correct_answer = 1, hints = [(''correct'', ''Correct!''), (''fail'', ''Wrong!'')],
       topic = ''Python Basics''\<rparr>]"

definition example_env :: env where
  "example_env =
     \<lparr>md5_hexdigest =
        (\<lambda>s. if s = ''Python Basics:What is Python?'' then ''2da4f2ec8eea36dda21a5317b87b7f42''
             else if s = ''Python Basics:What is a list?'' then ''9ee7b23e43022b8c94c67fcf87f85e38''
             else []),
      load_questions_from_file =
        (\<lambda>p. if p = ''db/python_basics.json'' then example_questions else []),
      get_available_topics = [(''Python Basics'', ''db/python_basics.json'')],
      sample = (\<lambda>xs k. take k xs),
      shuffle = (\<lambda>xs. xs)\<rparr>"

section \<open>Properties of the update rule\<close>



lemma py_int_ge_1: "1 \<le> x \<Longrightarrow> 1 \<le> py_int x"
  by (simp add: py_int_def le_floor_iff)

lemma interval_ease_ge_1:
  assumes "13 / 10 \<le> (e::rat)" "1 \<le> (i::int)"
  shows "1 \<le> of_int i * e"
proof -
  have "1 \<le> (of_int i :: rat)" using assms(2) by simp
  moreover have "1 \<le> e" using assms(1) by simp
  ultimately have "1 * 1 \<le> of_int i * e" by (intro mult_mono) simp_all
  then show ?thesis by simp
qed

lemma update_data_total:
  "total_attempts data \<noteq> - 1 \<Longrightarrow> \<exists>d. update_data now c rt data = Inr d"
  by (simp add: update_data_def Let_def)

lemma update_data_Inr_iff:
  "update_data now c rt r = Inr r' \<longleftrightarrow>
     total_attempts r \<noteq> - 1 \<and>
     r' = r\<lparr>ease_factor := max (13 / 10) (ease_factor r +
                (1 / 10 - of_int (5 - quality_of c rt (if c then correct_attempts r + 1 else correct_attempts r) (total_attempts r + 1)) *
                  (8 / 100 + of_int (5 - quality_of c rt (if c then correct_attempts r + 1 else correct_attempts r) (total_attempts r + 1)) * (2 / 100)))),
            repetition := (if c then repetition r + 1 else 0),
            interval := (if c then (if repetition r = 0 then 1 else if repetition r = 1 then 6
                                    else py_int (of_int (interval r) * ease_factor r)) else 1),
            next_review := now + timedelta_days (if c then (if repetition r = 0 then 1 else if repetition r = 1 then 6
                                    else py_int (of_int (interval r) * ease_factor r)) else 1),
            total_attempts := total_attempts r + 1,
            correct_attempts := (if c then correct_attempts r + 1 else correct_attempts r),
            last_response_time := rt,
            avg_response_time := (avg_response_time r * of_int (total_attempts r + 1 - 1) + rt) / of_int (total_attempts r + 1)\<rparr>"
  unfolding update_data_def Let_def by (auto simp del: of_int_add of_int_diff)

lemma update_data_ease:
  "update_data now c rt r = Inr r' \<Longrightarrow> 13 / 10 \<le> ease_factor r'"
  unfolding update_data_Inr_iff by simp

lemma update_data_counts:
  "update_data now c rt r = Inr r' \<Longrightarrow> 0 \<le> correct_attempts r \<Longrightarrow>
   correct_attempts r \<le> total_attempts r \<Longrightarrow>
   0 \<le> correct_attempts r' \<and> correct_attempts r' \<le> total_attempts r'"
  unfolding update_data_Inr_iff by auto

lemma update_data_interval:
  "update_data now c rt r = Inr r' \<Longrightarrow> 13 / 10 \<le> ease_factor r \<Longrightarrow> 1 \<le> interval r \<Longrightarrow>
   1 \<le> interval r'"
  unfolding update_data_Inr_iff using py_int_ge_1 [OF interval_ease_ge_1, of "ease_factor r" "interval r"]
  by auto

lemma update_data_repetition:
  "update_data now c rt r = Inr r' \<Longrightarrow> 0 \<le> repetition r \<Longrightarrow> 0 \<le> repetition r'"
  unfolding update_data_Inr_iff by auto

lemma update_data_inv:
  assumes "record_inv r" "update_data now c rt r = Inr r'"
  shows "record_inv r'"
  using assms update_data_ease [OF assms(2)] update_data_counts [OF assms(2)]
    update_data_interval [OF assms(2)] update_data_repetition [OF assms(2)]
  unfolding record_inv_def by blast

lemma record_inv_new: "record_inv (new_record now)"
  by (simp add: record_inv_def new_record_def)

lemma store_inv_append:
  "store_inv s \<Longrightarrow> map_of s k = None \<Longrightarrow> record_inv r \<Longrightarrow> store_inv (s @ [(k, r)])"
  by (auto simp: store_inv_def map_of_eq_None_iff)

lemma store_inv_update:
  "store_inv s \<Longrightarrow> record_inv r \<Longrightarrow> store_inv (AList.update k r s)"
  unfolding store_inv_def
  by (induction s) (auto simp: distinct_update dom_update)

lemma store_inv_lookup:
  "store_inv s \<Longrightarrow> map_of s k = Some r \<Longrightarrow> record_inv r"
  unfolding store_inv_def list_all_iff
  by (auto dest: map_of_SomeD)

lemma initialize_question_inv:
  "store_inv (question_data m) \<Longrightarrow> store_inv (question_data (initialize_question now q u m))"
  by (simp add: initialize_question_def Let_def store_inv_append record_inv_new)

lemma question_data_save_data [simp]: "question_data (save_data w m) = question_data m"
  by (cases w) (simp_all add: save_data_def)

lemma initialize_question_lookup:
  "\<exists>r. map_of (question_data (initialize_question now q u m)) (user_key u q) = Some r"
  by (cases "map_of (question_data m) (user_key u q)") (auto simp: initialize_question_def Let_def map_add_def)

lemma update_existing:
  "map_of (question_data m) (user_key u q) = Some r \<Longrightarrow>
   update_question_performance now w q u c rt m =
     (case update_data now c rt r of
        Inl e \<Rightarrow> Inl e
      | Inr r' \<Rightarrow> Inr (save_data w (m\<lparr>question_data := AList.update (user_key u q) r' (question_data m)\<rparr>)))"
  by (simp add: update_question_performance_def Let_def)

lemma update_absent:
  "map_of (question_data m) (user_key u q) = None \<Longrightarrow>
   update_question_performance now w q u c rt m =
     (case update_data now c rt (new_record now) of
        Inl e \<Rightarrow> Inl e
      | Inr r' \<Rightarrow> Inr (save_data w (m\<lparr>question_data :=
                    AList.update (user_key u q) r' (question_data m @ [(user_key u q, new_record now)])\<rparr>)))"
  by (simp add: update_question_performance_def initialize_question_def Let_def map_add_def
      split: sum.splits)

lemma record_inv_total: "record_inv r \<Longrightarrow> total_attempts r \<noteq> - 1"
  by (auto simp: record_inv_def)




lemma store_inv_empty: "store_inv (question_data empty_manager)"
  by (simp add: store_inv_def empty_manager_def)







lemma update_data_fields:
  assumes "update_data now c rt r = Inr r'"
  shows "total_attempts r' = total_attempts r + 1"
    and "last_response_time r' = rt"
    and "avg_response_time r' =
           (avg_response_time r * of_int (total_attempts r' - 1) + rt) / of_int (total_attempts r')"
    and "correct_attempts r' = (if c then correct_attempts r + 1 else correct_attempts r)"
  using assms unfolding update_data_Inr_iff by simp_all

lemma map_of_append_upd: "([k \<mapsto> v] ++ f)(k \<mapsto> r) = f(k \<mapsto> r)"
  by (auto simp: fun_eq_iff map_add_def split: option.splits)

text \<open>
  An update of a store that satisfies the invariant returns normally; the record under the
  key is the one \<open>update_data\<close> makes of the record found there (of a new record when
  there was none), and no other key is touched.
\<close>

lemma update_result:
  assumes "store_inv (question_data m)"
  shows "\<exists>m' r'.
      update_question_performance now w q u c rt m = Inr m' \<and>
      update_data now c rt
        (case map_of (question_data m) (user_key u q) of None \<Rightarrow> new_record now | Some r \<Rightarrow> r)
        = Inr r' \<and>
      map_of (question_data m') = (map_of (question_data m))(user_key u q \<mapsto> r') \<and>
      store_inv (question_data m')"
proof (cases "map_of (question_data m) (user_key u q)")
  case None
  obtain r' where r': "update_data now c rt (new_record now) = Inr r'"
    using update_data_total [OF record_inv_total [OF record_inv_new]] by blast
  have "record_inv r'" using update_data_inv [OF record_inv_new r'] .
  moreover have "store_inv (question_data m @ [(user_key u q, new_record now)])"
    using assms None by (simp add: store_inv_append record_inv_new)
  ultimately show ?thesis
    using None r' by (simp add: update_absent store_inv_update update_conv' map_of_append_upd)
next
  case (Some r)
  have ri: "record_inv r" using store_inv_lookup [OF assms Some] .
  obtain r' where r': "update_data now c rt r = Inr r'"
    using update_data_total [OF record_inv_total [OF ri]] by blast
  have "record_inv r'" using update_data_inv [OF ri r'] .
  then show ?thesis
    using Some r' assms by (simp add: update_existing store_inv_update update_conv')
qed












text \<open>
  Claim C3, as stated, fails: the last term of the source is \<open>min(days_overdue, 30)\<close>, not
  \<open>min(max(0, days_overdue), 30)\<close>. One second after its first update, the record is due in
  a day less a second: \<open>days_overdue = -1\<close>, the source returns 7 and the formula of the claim
  gives 8.
\<close>

theorem priority_counterexample:
  "get_question_priority 1000000 ''q'' ''u''
     \<lparr>question_data =
        [(''u:q'', \<lparr>ease_factor = 13 / 5, repetition = 1, interval = 1,
                    next_review = 86400000000, total_attempts = 1, correct_attempts = 1,
                    last_response_time = 3, avg_response_time = 3, created_date = 0\<rparr>)],
      last_saved = None, console = []\<rparr> = 7 \<and>
   of_int (max 0 (delta_days (1000000 - 86400000000))) * 10
     + (1 - of_int 1 / of_int (max 1 1)) * 50 + (3 - 13 / 5) * 20
     + of_int (min (max 0 (delta_days (1000000 - 86400000000))) 30) = (8::rat)"
  by (simp add: get_question_priority_def user_key_def delta_days_def day_us_def Let_def)

lemma delta_days_nonneg: "b \<le> a \<Longrightarrow> 0 \<le> delta_days (a - b)"
  by (simp add: delta_days_def day_us_def pos_imp_zdiv_nonneg_iff)

text \<open>
  Claim C3, amended. With no record under the key, the priority is 100. With a record, it
  is \<open>max(0, days_overdue) * 10 + (1 - success_rate) * 50 + (3.0 - ease_factor) * 20 +
  min(days_overdue, 30)\<close>, where \<open>days_overdue\<close> is the floor of the days from \<open>next_review\<close> to
  now and \<open>success_rate = correct_attempts / max(1, total_attempts)\<close>: the last term is not
  clamped at 0 and is negative for a record that is not yet due. For a record that is due
  (\<open>next_review \<le> now\<close>) the last term is \<open>min(max(0, days_overdue), 30)\<close> all the same.
\<close>

theorem priority_formula:
  "(map_of (question_data m) (user_key username question_id) = None \<longrightarrow>
      get_question_priority now question_id username m = 100) \<and>
   (map_of (question_data m) (user_key username question_id) = Some r \<longrightarrow>
      get_question_priority now question_id username m =
        of_int (max 0 (delta_days (now - next_review r))) * 10
        + (1 - of_int (correct_attempts r) / of_int (max 1 (total_attempts r))) * 50
        + (3 - ease_factor r) * 20
        + of_int (min (delta_days (now - next_review r)) 30)) \<and>
   (map_of (question_data m) (user_key username question_id) = Some r \<and> next_review r \<le> now \<longrightarrow>
      get_question_priority now question_id username m =
        of_int (max 0 (delta_days (now - next_review r))) * 10
        + (1 - of_int (correct_attempts r) / of_int (max 1 (total_attempts r))) * 50
        + (3 - ease_factor r) * 20
        + of_int (min (max 0 (delta_days (now - next_review r))) 30))"
proof (intro conjI impI)
  assume "map_of (question_data m) (user_key username question_id) = None"
  then show "get_question_priority now question_id username m = 100"
    by (simp add: get_question_priority_def)
next
  assume "map_of (question_data m) (user_key username question_id) = Some r"
  then show "get_question_priority now question_id username m =
        of_int (max 0 (delta_days (now - next_review r))) * 10
        + (1 - of_int (correct_attempts r) / of_int (max 1 (total_attempts r))) * 50
        + (3 - ease_factor r) * 20
        + of_int (min (delta_days (now - next_review r)) 30)"
    by (simp add: get_question_priority_def Let_def)
next
  assume a: "map_of (question_data m) (user_key username question_id) = Some r \<and> next_review r \<le> now"
  then have "max 0 (delta_days (now - next_review r)) = delta_days (now - next_review r)"
    using delta_days_nonneg [of "next_review r" now] by simp
  then show "get_question_priority now question_id username m =
        of_int (max 0 (delta_days (now - next_review r))) * 10
        + (1 - of_int (correct_attempts r) / of_int (max 1 (total_attempts r))) * 50
        + (3 - ease_factor r) * 20
        + of_int (min (max 0 (delta_days (now - next_review r))) 30)"
    using a by (simp add: get_question_priority_def Let_def)
qed

theorem priority_formula_witness:
  "map_of (question_data empty_manager) (user_key ''u'' ''q'') = None \<and>
   get_question_priority 5 ''q'' ''u'' empty_manager = 100 \<and>
   map_of [(''u:q'', new_record 0)] (user_key ''u'' ''q'') = Some (new_record 0) \<and>
   next_review (new_record 0) \<le> 3 * day_us \<and>
   get_question_priority (3 * day_us) ''q'' ''u''
     \<lparr>question_data = [(''u:q'', new_record 0)], last_saved = None, console = []\<rparr> = 93"
proof -
  let ?m = "\<lparr>question_data = [(''u:q'', new_record 0)], last_saved = None, console = []\<rparr>"
  have h1: "map_of (question_data empty_manager) (user_key ''u'' ''q'') = None"
    by (simp add: empty_manager_def)
  have h2: "map_of (question_data ?m) (user_key ''u'' ''q'') = Some (new_record 0)"
    by (simp add: user_key_def)
  have h3: "next_review (new_record 0) \<le> 3 * day_us"
    by (simp add: new_record_def day_us_def)
  have a: "get_question_priority 5 ''q'' ''u'' empty_manager = 100"
    using priority_formula [where m = empty_manager and username = "''u''"
        and question_id = "''q''" and now = 5] h1 by simp
  have b: "get_question_priority (3 * day_us) ''q'' ''u'' ?m = 93"
    using priority_formula [where m = ?m and username = "''u''" and question_id = "''q''"
        and r = "new_record 0" and now = "3 * day_us"] h2 h3
    by (simp add: new_record_def delta_days_def day_us_def)
  show ?thesis using h1 h2 h3 a b by simp
qed

section \<open>Properties of the review schedule\<close>

lemma date_key_shift: "date_key (now + timedelta_days i) = date_key now + i"
  by (simp add: date_key_def timedelta_days_def day_us_def)

lemma update_fresh: "k \<notin> fst ` set al \<Longrightarrow> AList.update k v al = al @ [(k, v)]"
  by (induction al) auto

lemma fold_update_fresh:
  "distinct (map f js) \<Longrightarrow> f ` set js \<inter> fst ` set acc = {} \<Longrightarrow>
   fold (\<lambda>i sch. AList.update (f i) [] sch) js acc = acc @ map (\<lambda>i. (f i, [])) js"
proof (induction js arbitrary: acc)
  case Nil
  then show ?case by simp
next
  case (Cons j js)
  have fresh: "f j \<notin> fst ` set acc" using Cons.prems(2) by auto
  have "f ` set js \<inter> fst ` set (acc @ [(f j, [])]) = {}"
    using Cons.prems by auto
  then have "fold (\<lambda>i sch. AList.update (f i) [] sch) js (acc @ [(f j, [])])
      = (acc @ [(f j, [])]) @ map (\<lambda>i. (f i, [])) js"
    using Cons.IH [of "acc @ [(f j, [])]"] Cons.prems(1) by simp
  then show ?case by (simp add: update_fresh [OF fresh])
qed

lemma empty_schedule:
  "fold (\<lambda>i sch. AList.update (date_key (now + timedelta_days i)) [] sch) [0..days - 1] []
     = map (\<lambda>i. (date_key now + i, [])) [0..days - 1]"
proof -
  have "distinct (map (\<lambda>i. date_key (now + timedelta_days i)) [0..days - 1])"
    by (simp add: date_key_shift distinct_map inj_on_def)
  from fold_update_fresh [OF this, of "[]"] show ?thesis
    by (simp add: date_key_shift)
qed

lemma schedule_step_keys:
  "map fst (schedule_step now username days kd sch) = map fst sch"
  by (cases kd)
     (auto simp: schedule_step_def Let_def update_keys split: option.splits dest: map_of_SomeD
           intro: rev_image_eqI)

lemma fold_schedule_step_keys:
  "map fst (fold (schedule_step now username days) s sch) = map fst sch"
  by (induction s arbitrary: sch) (simp_all add: schedule_step_keys)

lemma schedule_step_bucket:
  "map_of (schedule_step now username days (key, data) sch) d =
     (case map_of sch d of
        None \<Rightarrow> None
      | Some bucket \<Rightarrow>
          Some (bucket @
            (if startswith key (username @ '':'') \<and> now \<le> next_review data \<and>
                next_review data \<le> now + timedelta_days days \<and> date_key (next_review data) = d
             then [split_colon_1 key] else [])))"
  by (auto simp: schedule_step_def Let_def update_conv' split: option.splits)

lemma fold_schedule_step_bucket:
  "map_of (fold (schedule_step now username days) s sch) d =
     (case map_of sch d of
        None \<Rightarrow> None
      | Some bucket \<Rightarrow>
          Some (bucket @ map (\<lambda>(key, data). split_colon_1 key)
            (filter (\<lambda>(key, data). startswith key (username @ '':'') \<and> now \<le> next_review data \<and>
                next_review data \<le> now + timedelta_days days \<and> date_key (next_review data) = d) s)))"
proof (induction s arbitrary: sch)
  case Nil
  then show ?case by (simp split: option.splits)
next
  case (Cons kd s)
  obtain key data where kd: "kd = (key, data)" by (cases kd)
  show ?case
    by (simp add: kd Cons.IH schedule_step_bucket split: option.splits)
qed

lemma map_of_const_map:
  "map_of (map (\<lambda>i. (f i, c)) js) d = (if d \<in> f ` set js then Some c else None)"
  by (induction js) auto

lemma map_of_empty_schedule:
  "map_of (map (\<lambda>i. (date_key now + i, [])) [0..days - 1]) d =
     (if date_key now \<le> d \<and> d < date_key now + days then Some [] else None)"
proof -
  have "d \<in> (\<lambda>i. date_key now + i) ` set [0..days - 1]
      \<longleftrightarrow> date_key now \<le> d \<and> d < date_key now + days"
    by (auto simp: image_iff intro: bexI [of _ "d - date_key now"])
  then show ?thesis by (simp add: map_of_const_map)
qed

lemma split_colon_1_user_key:
  "CHR '':'' \<notin> set username \<Longrightarrow> split_colon_1 (user_key username question_id) = question_id"
proof -
  assume "CHR '':'' \<notin> set username"
  then have "dropWhile (\<lambda>c. c \<noteq> CHR '':'') (username @ '':'' @ question_id) = '':'' @ question_id"
    by (induction username) auto
  then show ?thesis by (simp add: split_colon_1_def user_key_def)
qed

lemma startswith_user_key: "startswith (user_key username question_id) (username @ '':'')"
  by (simp add: startswith_def user_key_def)

lemma date_key_mono: "a \<le> b \<Longrightarrow> date_key a \<le> date_key b"
  by (simp add: date_key_def day_us_def zdiv_mono1)

text \<open>
  Claim C8, as stated, fails: the buckets are the dates of \<open>now\<close>, \<open>now + 1 day\<close>, ...,
  \<open>now + (days - 1) days\<close>, and a record on a date without a bucket is skipped. At one
  o'clock of day 0 with a horizon of one day, a record due at midnight of day 1 lies in the
  window \<open>[now, now + 1 day]\<close>; the schedule has the one bucket of day 0, and it is empty.
\<close>

theorem review_schedule_counterexample:
  "get_review_schedule 3600000000 ''u'' 1
     \<lparr>question_data =
        [(''u:q'', \<lparr>ease_factor = 13 / 5, repetition = 1, interval = 1,
                    next_review = 86400000000, total_attempts = 1, correct_attempts = 1,
                    last_response_time = 3, avg_response_time = 3, created_date = 0\<rparr>)],
      last_saved = None, console = []\<rparr> = [(0, [])] \<and>
   (3600000000::int) \<le> 86400000000 \<and>
   86400000000 \<le> 3600000000 + timedelta_days 1 \<and>
   date_key 86400000000 = 1"
  by (simp add: get_review_schedule_def schedule_step_def startswith_def date_key_def
      timedelta_days_def day_us_def)

text \<open>
  Claim C8, amended. The schedule has one bucket for each of the \<open>days\<close> calendar dates of
  \<open>now\<close>, \<open>now + 1 day\<close>, ..., \<open>now + (days - 1) days\<close>, in this order, and no other. The
  bucket of such a date holds, in the order of the store, what follows the first colon in
  the key of every record whose key starts with the user name and a colon, whose
  \<open>next_review\<close> lies within \<open>[now, now + days]\<close> and falls on that date; it is empty when
  there is none. So a record of the user within the window is in the bucket of its date
  when that date is before the date of \<open>now + days\<close>, under the item it was stored with
  when the user name has no colon.
\<close>

theorem review_schedule_buckets:
  "map fst (get_review_schedule now username days m) = map (\<lambda>i. date_key now + i) [0..days - 1] \<and>
   (date_key now \<le> d \<and> d < date_key now + days \<longrightarrow>
      map_of (get_review_schedule now username days m) d =
        Some (map (\<lambda>(key, data). split_colon_1 key)
          (filter (\<lambda>(key, data). startswith key (username @ '':'') \<and> now \<le> next_review data \<and>
              next_review data \<le> now + timedelta_days days \<and> date_key (next_review data) = d)
            (question_data m)))) \<and>
   (map_of (question_data m) (user_key username question_id) = Some r \<and>
    now \<le> next_review r \<and> next_review r \<le> now + timedelta_days days \<and>
    date_key (next_review r) < date_key now + days \<longrightarrow>
      (\<exists>bucket. map_of (get_review_schedule now username days m) (date_key (next_review r))
           = Some bucket \<and>
         split_colon_1 (user_key username question_id) \<in> set bucket) \<and>
      (CHR '':'' \<notin> set username \<longrightarrow>
         split_colon_1 (user_key username question_id) = question_id))"
proof -
  let ?sched = "get_review_schedule now username days m"
  let ?P = "\<lambda>d. \<lambda>(key, data). startswith key (username @ '':'') \<and> now \<le> next_review data \<and>
              next_review data \<le> now + timedelta_days days \<and> date_key (next_review data) = d"
  have keys: "map fst ?sched = map (\<lambda>i. date_key now + i) [0..days - 1]"
    by (simp add: get_review_schedule_def empty_schedule fold_schedule_step_keys comp_def)
  have bucket: "map_of ?sched d =
      Some (map (\<lambda>(key, data). split_colon_1 key) (filter (?P d) (question_data m)))"
    if "date_key now \<le> d" "d < date_key now + days" for d
    using that
    by (simp add: get_review_schedule_def empty_schedule fold_schedule_step_bucket
        map_of_empty_schedule)
  have member: "\<exists>bucket. map_of ?sched (date_key (next_review r)) = Some bucket \<and>
         split_colon_1 (user_key username question_id) \<in> set bucket"
    if look: "map_of (question_data m) (user_key username question_id) = Some r"
      and win: "now \<le> next_review r" "next_review r \<le> now + timedelta_days days"
      and day: "date_key (next_review r) < date_key now + days"
  proof -
    have "(user_key username question_id, r) \<in> set (question_data m)"
      using look by (rule map_of_SomeD)
    then have "(user_key username question_id, r)
        \<in> set (filter (?P (date_key (next_review r))) (question_data m))"
      using win by (simp add: startswith_user_key)
    then have "split_colon_1 (user_key username question_id)
        \<in> set (map (\<lambda>(key, data). split_colon_1 key)
            (filter (?P (date_key (next_review r))) (question_data m)))"
      by (force simp del: set_filter)
    then show ?thesis
      using bucket [OF date_key_mono [OF win(1)] day] by simp
  qed
  show ?thesis
    using keys bucket member split_colon_1_user_key by blast
qed

theorem review_schedule_buckets_witness:
  "date_key 3600000000 \<le> 1 \<and> 1 < date_key 3600000000 + 7 \<and>
   map_of [(''u:q'', (new_record 0)\<lparr>next_review := 86400000000\<rparr>)] (user_key ''u'' ''q'')
     = Some ((new_record 0)\<lparr>next_review := 86400000000\<rparr>) \<and>
   (3600000000::int) \<le> 86400000000 \<and> 86400000000 \<le> 3600000000 + timedelta_days 7 \<and>
   date_key 86400000000 < date_key 3600000000 + 7 \<and>
   CHR '':'' \<notin> set ''u'' \<and>
   map fst (get_review_schedule 3600000000 ''u'' 7
      \<lparr>question_data = [(''u:q'', (new_record 0)\<lparr>next_review := 86400000000\<rparr>)],
       last_saved = None, console = []\<rparr>) = [0, 1, 2, 3, 4, 5, 6] \<and>
   map_of (get_review_schedule 3600000000 ''u'' 7
      \<lparr>question_data = [(''u:q'', (new_record 0)\<lparr>next_review := 86400000000\<rparr>)],
       last_saved = None, console = []\<rparr>) 1 = Some [''q'']"
proof -
  let ?r = "(new_record 0)\<lparr>next_review := 86400000000\<rparr>"
  let ?m = "\<lparr>question_data = [(''u:q'', ?r)], last_saved = None, console = []\<rparr>"
  have d: "date_key 3600000000 = 0" "date_key 86400000000 = 1"
    by (simp_all add: date_key_def day_us_def)
  have h1: "date_key 3600000000 \<le> 1 \<and> 1 < date_key 3600000000 + 7"
    by (simp add: d)
  have h2: "map_of (question_data ?m) (user_key ''u'' ''q'') = Some ?r"
    by (simp add: user_key_def)
  have h3: "3600000000 \<le> next_review ?r \<and> next_review ?r \<le> 3600000000 + timedelta_days 7 \<and>
      date_key (next_review ?r) < date_key 3600000000 + 7"
    by (simp add: d timedelta_days_def day_us_def)
  have h4: "CHR '':'' \<notin> set ''u''" by simp
  have u: "[0..(6::int)] = [0, 1, 2, 3, 4, 5, 6]" by (simp add: upto_rec1)
  note inst = review_schedule_buckets [where now = 3600000000 and username = "''u''" and days = 7
      and m = ?m and d = 1 and question_id = "''q''" and r = ?r]
  have keys: "map fst (get_review_schedule 3600000000 ''u'' 7 ?m) = [0, 1, 2, 3, 4, 5, 6]"
    using inst by (simp add: d u)
  have b: "map_of (get_review_schedule 3600000000 ''u'' 7 ?m) 1 = Some [''q'']"
    using inst h1 h3
    by (simp add: d startswith_def split_colon_1_def timedelta_days_def day_us_def)
  show ?thesis using h1 h2 h3 h4 keys b by simp
qed

section \<open>Properties of the selection of questions\<close>

lemma shuffle_Nil: "random_ok E \<Longrightarrow> shuffle E [] = []"
proof -
  assume "random_ok E"
  then have "mset (shuffle E []) = mset []" unfolding random_ok_def by blast
  then show ?thesis by simp
qed

lemma py_slice_to_zero: "py_slice_to 0 xs = []"
  by (simp add: py_slice_to_def)

lemma lookup_selected_Nil: "lookup_selected qmap [] = []"
  by (simp add: lookup_selected_def)

lemma fill_random_zero: "fill_random E all_questions 0 [] = []"
  by (simp add: fill_random_def)

lemma mset_take_subset: "mset (take k xs) \<subseteq># mset xs"
proof -
  have "mset xs = mset (take k xs) + mset (drop k xs)"
    by (metis append_take_drop_id mset_append)
  then show ?thesis by simp
qed

lemma random_ok_example: "random_ok (example_env\<lparr>get_available_topics := ts\<rparr>)"
  by (simp add: random_ok_def example_env_def mset_take_subset)

lemma spaced_zero: "random_ok E \<Longrightarrow> fst (get_spaced_repetition_quiz now E m username file_path 0) = []"
  by (simp add: get_spaced_repetition_quiz_def Let_def py_slice_to_zero lookup_selected_Nil
      fill_random_zero shuffle_Nil)

lemma difficult_zero: "random_ok E \<Longrightarrow> get_difficult_questions_quiz E m username fp 0 = []"
  by (simp add: get_difficult_questions_quiz_def Let_def py_slice_to_zero lookup_selected_Nil
      fill_random_zero shuffle_Nil)

lemma mixed_zero: "random_ok E \<Longrightarrow> get_mixed_review_quiz now E m username 0 = []"
  by (simp add: get_mixed_review_quiz_def Let_def py_slice_to_zero lookup_selected_Nil
      difficult_zero shuffle_Nil py_int_def)

text \<open>
  Claim C6, as stated, fails for a negative \<open>max_questions\<close>: the slice \<open>ranked[:-1]\<close> drops
  the last ranked question and keeps the others. With two questions in the topic file and
  \<open>max_questions = -1\<close>, the quiz has one question.
\<close>

theorem negative_max_questions_counterexample:
  "fst (get_spaced_repetition_quiz 0 example_env empty_manager ''u'' ''db/python_basics.json'' (- 1))
     = [\<lparr>oid = 1, question_text = ''What is a list?'',
         answers = [''1. A sequence'', ''2. A number'', ''3. A module'', ''4. A loop''],
         correct_answer = 1, hints = [(''correct'', ''Correct!''), (''fail'', ''Wrong!'')],
         topic = ''Python Basics''\<rparr>]"
  by code_simp

text \<open>
  Claim C6, amended. Whatever the random choices are, each of the three selections returns
  the empty list when its pool of questions is empty (the spaced-repetition quiz then
  leaves the manager as it was), and returns the empty list when \<open>max_questions\<close> is 0.
\<close>

theorem selection_empty_results:
  assumes "random_ok E"
  shows
    "(load_questions_from_file E file_path = [] \<longrightarrow>
        get_spaced_repetition_quiz now E m username file_path max_questions = ([], m)) \<and>
     (difficult_pool E fp = [] \<longrightarrow>
        get_difficult_questions_quiz E m username fp max_questions = []) \<and>
     (load_all_topics E = [] \<longrightarrow>
        get_mixed_review_quiz now E m username max_questions = []) \<and>
     fst (get_spaced_repetition_quiz now E m username file_path 0) = [] \<and>
     get_difficult_questions_quiz E m username fp 0 = [] \<and>
     get_mixed_review_quiz now E m username 0 = []"
proof -
  have "load_questions_from_file E file_path = [] \<longrightarrow>
      get_spaced_repetition_quiz now E m username file_path max_questions = ([], m)"
    by (simp add: get_spaced_repetition_quiz_def)
  moreover have "difficult_pool E fp = [] \<longrightarrow>
      get_difficult_questions_quiz E m username fp max_questions = []"
    by (simp add: get_difficult_questions_quiz_def)
  moreover have "load_all_topics E = [] \<longrightarrow>
      get_mixed_review_quiz now E m username max_questions = []"
    by (simp add: get_mixed_review_quiz_def)
  ultimately show ?thesis
    using spaced_zero [OF assms] difficult_zero [OF assms] mixed_zero [OF assms] by blast
qed

theorem selection_empty_results_witness:
  "random_ok example_env \<and>
   load_questions_from_file example_env ''db/none.json'' = [] \<and>
   get_spaced_repetition_quiz 0 example_env empty_manager ''u'' ''db/none.json'' 10
     = ([], empty_manager) \<and>
   difficult_pool example_env (Some ''db/none.json'') = [] \<and>
   get_difficult_questions_quiz example_env empty_manager ''u'' (Some ''db/none.json'') 10 = [] \<and>
   random_ok (example_env\<lparr>get_available_topics := []\<rparr>) \<and>
   load_all_topics (example_env\<lparr>get_available_topics := []\<rparr>) = [] \<and>
   get_mixed_review_quiz 0 (example_env\<lparr>get_available_topics := []\<rparr>) empty_manager ''u'' 15 = [] \<and>
   load_questions_from_file example_env ''db/python_basics.json'' \<noteq> [] \<and>
   fst (get_spaced_repetition_quiz 0 example_env empty_manager ''u'' ''db/python_basics.json'' 0) = [] \<and>
   get_difficult_questions_quiz example_env empty_manager ''u'' (Some ''db/python_basics.json'') 0 = [] \<and>
   get_mixed_review_quiz 0 example_env empty_manager ''u'' 0 = []"
proof -
  have ok1: "random_ok example_env"
    using random_ok_example [of "get_available_topics example_env"] by simp
  have ok2: "random_ok (example_env\<lparr>get_available_topics := []\<rparr>)"
    by (rule random_ok_example)
  have e1: "load_questions_from_file example_env ''db/none.json'' = []"
    by (simp add: example_env_def)
  have e2: "difficult_pool example_env (Some ''db/none.json'') = []"
    by (simp add: difficult_pool_def example_env_def)
  have e3: "load_all_topics (example_env\<lparr>get_available_topics := []\<rparr>) = []"
    by (simp add: load_all_topics_def)
  have e4: "load_questions_from_file example_env ''db/python_basics.json'' \<noteq> []"
    by (simp add: example_env_def example_questions_def)
  note a = selection_empty_results [OF ok1, where file_path = "''db/none.json''"
      and fp = "Some ''db/none.json''" and now = 0 and m = empty_manager and username = "''u''"
      and max_questions = 10]
  note b = selection_empty_results [OF ok2, where now = 0 and m = empty_manager
      and username = "''u''" and max_questions = 15]
  note c = selection_empty_results [OF ok1, where file_path = "''db/python_basics.json''"
      and fp = "Some ''db/python_basics.json''" and now = 0 and m = empty_manager
      and username = "''u''"]
  show ?thesis
    using ok1 ok2 e1 e2 e3 e4 a b c by simp
qed

section \<open>Keys of the store\<close>

lemma update_empty_manager:
  "\<exists>r'. update_data now c rt (new_record now) = Inr r' \<and> total_attempts r' = 1 \<and>
     update_question_performance now w q u c rt empty_manager
       = Inr (save_data w (empty_manager\<lparr>question_data := [(user_key u q, r')]\<rparr>))"
proof -
  obtain r' where r': "update_data now c rt (new_record now) = Inr r'"
    using update_data_total [OF record_inv_total [OF record_inv_new]] by blast
  have "total_attempts r' = 1"
    using update_data_fields(1) [OF r'] by (simp add: new_record_def)
  moreover have "update_question_performance now w q u c rt empty_manager
       = Inr (save_data w (empty_manager\<lparr>question_data := [(user_key u q, r')]\<rparr>))"
    using r' update_absent [of empty_manager u q now w c rt] by (simp add: empty_manager_def)
  ultimately show ?thesis using r' by blast
qed

text \<open>
  Claim C10. The key of a record is the user name, a colon and the item, and the records of
  a user are found by the prefix of the key. The pairs \<open>(a:b, c)\<close> and \<open>(a, b:c)\<close> differ
  and have one key, so an update for user \<open>a:b\<close> and item \<open>c\<close> changes the record that user
  \<open>a\<close> has for item \<open>b:c\<close>; and when the only record of the store was made by an update for
  user \<open>a:b\<close> (of any item), the statistics and the error summary of user \<open>a\<close> count it.
\<close>

theorem key_collision:
  "user_key ''a:b'' ''c'' = user_key ''a'' ''b:c'' \<and> (''a:b'', ''c'') \<noteq> (''a'', ''b:c'') \<and>
   (\<exists>m' r'.
      map_of (question_data (initialize_question t0 ''b:c'' ''a'' empty_manager))
        (user_key ''a'' ''b:c'') = Some (new_record t0) \<and>
      update_question_performance now w ''c'' ''a:b'' was_correct response_time
        (initialize_question t0 ''b:c'' ''a'' empty_manager) = Inr m' \<and>
      map_of (question_data m') (user_key ''a'' ''b:c'') = Some r' \<and>
      total_attempts r' = 1 \<and> total_attempts (new_record t0) = 0) \<and>
   (\<exists>m'.
      update_question_performance now w question_id ''a:b'' was_correct response_time
        empty_manager = Inr m' \<and>
      total_questions (get_user_statistics ''a'' m') = 1 \<and>
      total_reviews (get_user_statistics ''a'' m') = 1 \<and>
      total_questions_attempted (get_user_error_summary ''a'' m') = 1 \<and>
      es_total_attempts (get_user_error_summary ''a'' m') = Some 1)"
proof (intro conjI)
  show "user_key ''a:b'' ''c'' = user_key ''a'' ''b:c''" by (simp add: user_key_def)
  show "(''a:b'', ''c'') \<noteq> (''a'', ''b:c'')" by simp
next
  let ?m0 = "initialize_question t0 ''b:c'' ''a'' empty_manager"
  have q0: "question_data ?m0 = [(''a:b:c'', new_record t0)]"
    by (simp add: initialize_question_def empty_manager_def user_key_def)
  have inv: "store_inv (question_data ?m0)"
    using initialize_question_inv [OF store_inv_empty] .
  obtain m' r' where
    "update_question_performance now w ''c'' ''a:b'' was_correct response_time ?m0 = Inr m'"
    "update_data now was_correct response_time (new_record t0) = Inr r'"
    "map_of (question_data m') = (map_of (question_data ?m0))(user_key ''a:b'' ''c'' \<mapsto> r')"
    using update_result [OF inv, of now w "''c''" "''a:b''" was_correct response_time]
    by (auto simp: q0 user_key_def)
  then show "\<exists>m' r'.
      map_of (question_data ?m0) (user_key ''a'' ''b:c'') = Some (new_record t0) \<and>
      update_question_performance now w ''c'' ''a:b'' was_correct response_time ?m0 = Inr m' \<and>
      map_of (question_data m') (user_key ''a'' ''b:c'') = Some r' \<and>
      total_attempts r' = 1 \<and> total_attempts (new_record t0) = 0"
    using update_data_fields(1) [of now was_correct response_time "new_record t0" r']
    by (auto simp: q0 user_key_def new_record_def)
next
  obtain r' where r': "total_attempts r' = 1"
    "update_question_performance now w question_id ''a:b'' was_correct response_time empty_manager
       = Inr (save_data w (empty_manager\<lparr>question_data := [(user_key ''a:b'' question_id, r')]\<rparr>))"
    using update_empty_manager [of now was_correct response_time w question_id "''a:b''"] by blast
  let ?m' = "save_data w (empty_manager\<lparr>question_data := [(user_key ''a:b'' question_id, r')]\<rparr>)"
  have qd: "question_data ?m' = [(user_key ''a:b'' question_id, r')]" by simp
  have sw: "startswith (user_key ''a:b'' question_id) (''a'' @ '':'')"
    by (simp add: startswith_def user_key_def)
  have st: "total_questions (get_user_statistics ''a'' ?m') = 1"
    "total_reviews (get_user_statistics ''a'' ?m') = 1"
    using sw r'(1) by (simp_all add: get_user_statistics_def qd)
  have ud: "user_data_of ''a'' ?m' = [(split_colon_1 (user_key ''a:b'' question_id), r')]"
    using sw by (simp add: user_data_of_def qd)
  have es: "total_questions_attempted (get_user_error_summary ''a'' ?m') = 1"
    "es_total_attempts (get_user_error_summary ''a'' ?m') = Some 1"
    using r'(1) by (simp_all add: get_user_error_summary_def ud Let_def)
  show "\<exists>m'.
      update_question_performance now w question_id ''a:b'' was_correct response_time
        empty_manager = Inr m' \<and>
      total_questions (get_user_statistics ''a'' m') = 1 \<and>
      total_reviews (get_user_statistics ''a'' m') = 1 \<and>
      total_questions_attempted (get_user_error_summary ''a'' m') = 1 \<and>
      es_total_attempts (get_user_error_summary ''a'' m') = Some 1"
    using r'(2) st es by blast
qed

end
